theory Spec2Isabelle
  imports Complex_Main "HOL-Library.AList"
begin

section \<open>Python values, exceptions and provider replies\<close>

text \<open>
  The development embeds \<^verbatim>\<open>src/ai_helper.py\<close>: the method
  \<^verbatim>\<open>TerminalAI._generate_with_fallback\<close> (lines 389 to 442) and the body of the
  spinner thread \<^verbatim>\<open>_spin\<close> inside \<^verbatim>\<open>TerminalAI._start_spinner\<close> (lines 54 to 79).

  A Python value is \<^verbatim>\<open>None\<close>, a string or an integer: the method returns what the
  provider gave as text, which may be \<^verbatim>\<open>None\<close>, and \<^verbatim>\<open>self.last_status\<close> is
  \<^verbatim>\<open>None\<close> or a dict from strings to strings and integers. A dict is an association list in insertion order; storing under a key
  (\<^verbatim>\<open>d[k] = v\<close>) is \<open>AList.update\<close>, which replaces in place or appends.
\<close>

datatype pyval = PyNone | PyStr string | PyInt int

type_synonym pydict = "(string \<times> pyval) list"

text \<open>
  An exception, by its class as far as the handlers of the source tell classes apart,
  with the text \<^verbatim>\<open>str(e)\<close>: an instance of \<^verbatim>\<open>concurrent.futures.TimeoutError\<close>
  (the first handler of the Gemini part), any other instance of \<^verbatim>\<open>Exception\<close>, or
  an exception that is not an \<^verbatim>\<open>Exception\<close> (\<^verbatim>\<open>KeyboardInterrupt\<close>,
  \<^verbatim>\<open>SystemExit\<close>), which no handler of the method catches.
\<close>

datatype exn = FuturesTimeoutError string | OtherException string | NonException string

fun str_exn :: "exn \<Rightarrow> string" where
  "str_exn (FuturesTimeoutError s) = s"
| "str_exn (OtherException s) = s"
| "str_exn (NonException s) = s"

text \<open>\<^verbatim>\<open>isinstance(e, Exception)\<close>: what \<^verbatim>\<open>except Exception\<close> catches.\<close>

fun caught :: "exn \<Rightarrow> bool" where
  "caught (FuturesTimeoutError s) = True"
| "caught (OtherException s) = True"
| "caught (NonException s) = False"

text \<open>\<^verbatim>\<open>str(last_exc)\<close>, where \<^verbatim>\<open>last_exc\<close> starts as \<^verbatim>\<open>None\<close>.\<close>

fun str_last_exc :: "exn option \<Rightarrow> string" where
  "str_last_exc None = ''None''"
| "str_last_exc (Some e) = str_exn e"

text \<open>
  How the method can end other than by returning: with the \<^verbatim>\<open>RuntimeError\<close> it
  raises itself, or with an exception that passed through it uncaught.
\<close>

datatype error = RuntimeError string | Uncaught exn

text \<open>
  What a call of a provider client does, seen from the caller: it runs for
  \<open>latency\<close> seconds and then either raises or returns. Every call modelled here ends
  after a finite time. The client objects have the methods the source calls; what can
  raise is a provider call and the reading of a response.
\<close>

datatype 'a reply = Reply (latency: real) (outcome: "exn + 'a")

text \<open>
  The Gemini response object, as far as the method uses it. Reading
  \<^verbatim>\<open>resp.text\<close> finds no such attribute (\<^verbatim>\<open>AttributeError\<close>), gives a value (which
  may be \<^verbatim>\<open>None\<close>), or raises something else; \<^verbatim>\<open>str(resp)\<close> gives a string or
  raises.
\<close>

datatype attr = NoAttribute | Attribute pyval | AttributeRaises exn

datatype gemini_response = GeminiResponse (text_attr: attr) (str_resp: "exn + string")

text \<open>
  \<^verbatim>\<open>getattr(resp, "text", str(resp))\<close>: the default \<^verbatim>\<open>str(resp)\<close> is an argument, so
  it is evaluated first, whether it is needed or not; then the attribute is read, and
  only \<^verbatim>\<open>AttributeError\<close> makes \<^verbatim>\<open>getattr\<close> fall back to the default.
\<close>

definition getattr_text :: "gemini_response \<Rightarrow> exn + pyval" where
  "getattr_text resp =
     (case str_resp resp of
        Inl e \<Rightarrow> Inl e
      | Inr fallback \<Rightarrow>
          (case text_attr resp of
             NoAttribute \<Rightarrow> Inr (PyStr fallback)
           | Attribute v \<Rightarrow> Inr v
           | AttributeRaises e \<Rightarrow> Inl e))"

text \<open>
  The OpenAI client answers a prompt at the \<open>k\<close>-th iteration of \<^verbatim>\<open>for _ in range(3)\<close>
  with the message content \<^verbatim>\<open>resp.choices[0].message.content\<close> (a string or
  \<^verbatim>\<open>None\<close>) or an exception (anything raised by the call or by reading the content,
  both inside the \<^verbatim>\<open>try\<close> block). The Gemini client is called once.
\<close>

type_synonym openai = "string \<Rightarrow> nat \<Rightarrow> pyval reply"

type_synonym gemini = "string \<Rightarrow> gemini_response reply"

record terminal_ai =
  client :: "gemini option"
  openai_client :: "openai option"
  last_status :: "pydict option"

section \<open>Observable effects\<close>

text \<open>
  The effects of the method are recorded in a world: the monotonic clock (seconds), the
  next fresh spinner handle (each \<^verbatim>\<open>_start_spinner\<close> creates a new
  \<^verbatim>\<open>threading.Event\<close>), and the trace of what was done, oldest first.
\<close>

datatype event =
    SpinnerStart nat "string list" real
  | SpinnerSet nat
  | OpenAICall string
  | Sleep real
  | GeminiSubmit string
  | FutureWait real

record world =
  now :: real
  next_handle :: nat
  trace :: "event list"

definition emit :: "event \<Rightarrow> world \<Rightarrow> world" where
  "emit e w = w\<lparr>trace := trace w @ [e]\<rparr>"

definition elapse :: "real \<Rightarrow> world \<Rightarrow> world" where
  "elapse d w = w\<lparr>now := now w + d\<rparr>"

text \<open>\<^verbatim>\<open>time.sleep(d)\<close>\<close>

definition time_sleep :: "real \<Rightarrow> world \<Rightarrow> world" where
  "time_sleep d w = elapse d (emit (Sleep d) w)"

text \<open>\<^verbatim>\<open>self._start_spinner(phases, interval)\<close> returns the new stop event.\<close>

definition start_spinner :: "string list \<Rightarrow> real \<Rightarrow> world \<Rightarrow> nat \<times> world" where
  "start_spinner phases interval w =
     (next_handle w,
      emit (SpinnerStart (next_handle w) phases interval)
        (w\<lparr>next_handle := Suc (next_handle w)\<rparr>))"

text \<open>\<^verbatim>\<open>spinner_stop.set()\<close>\<close>

definition spinner_set :: "nat \<Rightarrow> world \<Rightarrow> world" where
  "spinner_set h w = emit (SpinnerSet h) w"

text \<open>\<^verbatim>\<open>int(x)\<close> on a float truncates towards zero.\<close>

definition py_int :: "real \<Rightarrow> int" where
  "py_int x = (if 0 \<le> x then \<lfloor>x\<rfloor> else \<lceil>x\<rceil>)"

section \<open>The spinner thread\<close>

text \<open>
  The body of \<^verbatim>\<open>_spin\<close>, lines 57 to 75. \<^verbatim>\<open>phases[(i // 3) % len(phases)]\<close>
  raises \<^verbatim>\<open>ZeroDivisionError\<close> for an empty \<^verbatim>\<open>phases\<close>, outside the
  \<^verbatim>\<open>try\<close>, which ends the thread: that is \<open>None\<close>.
\<close>

definition dots :: "string list" where
  "dots = [''.'', ''..'', ''...'']"

definition spin_phase :: "string list \<Rightarrow> nat \<Rightarrow> string option" where
  "spin_phase phases i =
     (if length phases = 0 then None else Some (phases ! ((i div 3) mod length phases)))"

definition spin_msg :: "string list \<Rightarrow> nat \<Rightarrow> string option" where
  "spin_msg phases i =
     (case spin_phase phases i of
        None \<Rightarrow> None
      | Some phase \<Rightarrow> Some (phase @ '' '' @ dots ! (i mod 3)))"

text \<open>What iteration \<open>i\<close> writes: \<^verbatim>\<open>"\r" + msg + " " * 10\<close>.\<close>

definition spin_line :: "string list \<Rightarrow> nat \<Rightarrow> string option" where
  "spin_line phases i =
     (case spin_msg phases i of
        None \<Rightarrow> None
      | Some msg \<Rightarrow> Some ([CHR 0x0D] @ msg @ replicate 10 CHR '' ''))"

text \<open>The write after the loop: \<^verbatim>\<open>"\r" + " " * 80 + "\r"\<close>.\<close>

definition clear_line :: string where
  "clear_line = [CHR 0x0D] @ replicate 80 CHR '' '' @ [CHR 0x0D]"

text \<open>
  The loop \<^verbatim>\<open>while not stop_event.is_set()\<close>, started with \<open>i = 0\<close>, when the
  event is found set at the test after \<open>n\<close> iterations: the writes in order, or
  \<open>None\<close> when the thread died. An iteration ends with
  \<^verbatim>\<open>time.sleep(interval)\<close>, so one iteration is one interval.
\<close>

fun spin :: "string list \<Rightarrow> nat \<Rightarrow> nat \<Rightarrow> string list option" where
  "spin phases 0 i = Some [clear_line]"
| "spin phases (Suc n) i =
     (case spin_line phases i of
        None \<Rightarrow> None
      | Some l \<Rightarrow> (case spin phases n (i + 1) of None \<Rightarrow> None | Some ls \<Rightarrow> Some (l # ls)))"

section \<open>The OpenAI attempts\<close>

text \<open>
  The loop \<^verbatim>\<open>for _ in range(3)\<close> of lines 396 to 415, over the remaining iteration
  numbers. \<open>Inl last_exc\<close> is the loop running out. \<open>Inr\<close> is the method being
  left from inside the loop: by \<^verbatim>\<open>return text\<close>, or by an exception that
  \<^verbatim>\<open>except Exception\<close> does not catch.
\<close>

fun openai_attempts ::
  "openai \<Rightarrow> string \<Rightarrow> real \<Rightarrow> nat \<Rightarrow> nat list \<Rightarrow> real \<Rightarrow> exn option \<Rightarrow>
   terminal_ai \<Rightarrow> world \<Rightarrow> (exn option + (error + pyval)) \<times> terminal_ai \<times> world" where
  "openai_attempts oc prompt start_openai spinner_stop [] delay last_exc self w =
     (Inl last_exc, self, w)"
| "openai_attempts oc prompt start_openai spinner_stop (k # ks) delay last_exc self w =
     (let r = oc prompt k;
          w1 = elapse (latency r) (emit (OpenAICall prompt) w)
      in case outcome r of
           Inr text \<Rightarrow>
             (let duration_ms = py_int ((now w1 - start_openai) * 1000);
                  w2 = spinner_set spinner_stop w1
              in (Inr (Inr text),
                  self\<lparr>last_status := Some [(''provider'', PyStr ''openai''),
                                           (''reason'', PyStr ''ok''),
                                           (''duration_ms'', PyInt duration_ms)]\<rparr>,
                  w2))
         | Inl exc \<Rightarrow>
             if caught exc
             then openai_attempts oc prompt start_openai spinner_stop ks (delay * 2)
                    (Some exc) self (time_sleep delay w1)
             else (Inr (Inl (Uncaught exc)), self, w1))"

text \<open>
  Lines 391 to 418: \<open>Some\<close> when the method was left from inside the loop, \<open>None\<close>
  when control goes on to the Gemini part (OpenAI not configured, or all attempts
  failed and \<^verbatim>\<open>last_status\<close> was set to the fallback header).
\<close>

definition openai_phase ::
  "terminal_ai \<Rightarrow> string \<Rightarrow> world \<Rightarrow> (error + pyval) option \<times> terminal_ai \<times> world" where
  "openai_phase self prompt w =
     (case openai_client self of
        None \<Rightarrow> (None, self, w)
      | Some oc \<Rightarrow>
          (let delay = 0.5;
               last_exc = None;
               start_openai = now w;
               (spinner_stop, w1) = start_spinner [''Thinking'', ''Analysing''] 0.5 w
           in case openai_attempts oc prompt start_openai spinner_stop [0, 1, 2]
                     delay last_exc self w1 of
                (Inr left, self1, w2) \<Rightarrow> (Some left, self1, w2)
              | (Inl last_exc1, self1, w2) \<Rightarrow>
                  (None,
                   self1\<lparr>last_status := Some [(''provider'', PyStr ''gemini''),
                                             (''reason'', PyStr ''openai_failed''),
                                             (''error'', PyStr (str_last_exc last_exc1))]\<rparr>,
                   spinner_set spinner_stop w2)))"

section \<open>The Gemini fallback\<close>

text \<open>
  Leaving \<^verbatim>\<open>with concurrent.futures.ThreadPoolExecutor(max_workers=1) as pool\<close>, by
  return or by exception, runs the executor's \<^verbatim>\<open>__exit__\<close>, which is
  \<^verbatim>\<open>shutdown(wait=True)\<close>: it joins the worker thread, so it lasts until the
  submitted call has ended.
\<close>

definition executor_exit :: "real \<Rightarrow> real \<Rightarrow> world \<Rightarrow> world" where
  "executor_exit submitted lat w = w\<lparr>now := max (now w) (submitted + lat)\<rparr>"

text \<open>\<^verbatim>\<open>not self.last_status\<close>: \<^verbatim>\<open>None\<close> and the empty dict are falsy.\<close>

definition falsy :: "pydict option \<Rightarrow> bool" where
  "falsy s = (case s of None \<Rightarrow> True | Some d \<Rightarrow> d = [])"

text \<open>
  Lines 432 to 435: a falsy status is replaced by a new dict, any other status gets
  \<^verbatim>\<open>duration_ms\<close> stored in it.
\<close>

definition store_duration :: "pydict option \<Rightarrow> int \<Rightarrow> pydict option" where
  "store_duration status duration_ms =
     (if falsy status
      then Some [(''provider'', PyStr ''gemini''), (''reason'', PyStr ''ok''),
                 (''duration_ms'', PyInt duration_ms)]
      else map_option (AList.update ''duration_ms'' (PyInt duration_ms)) status)"

text \<open>
  The two \<^verbatim>\<open>except\<close> clauses of lines 437 to 442, for an exception raised inside
  the \<^verbatim>\<open>try\<close>: each stops the spinner and raises its \<^verbatim>\<open>RuntimeError\<close>; an
  exception that neither catches passes through, and nothing is done.
\<close>

fun except_clauses :: "exn \<Rightarrow> nat \<Rightarrow> world \<Rightarrow> error \<times> world" where
  "except_clauses (FuturesTimeoutError s) spinner_stop w =
     (RuntimeError ''Gemini fallback timed out after 7 seconds'', spinner_set spinner_stop w)"
| "except_clauses (OtherException s) spinner_stop w =
     (RuntimeError (''Gemini fallback failed: '' @ s), spinner_set spinner_stop w)"
| "except_clauses (NonException s) spinner_stop w = (Uncaught (NonException s), w)"

text \<open>
  Lines 421 to 442. \<^verbatim>\<open>fut.result(timeout=7.0)\<close> hands over what the call ended with
  (the worker stores any exception of the call in the future, and \<^verbatim>\<open>result\<close> raises
  it again) when the call ends within 7 seconds, and raises
  \<^verbatim>\<open>concurrent.futures.TimeoutError\<close> after 7 seconds otherwise. The
  \<^verbatim>\<open>return\<close> of line 436 is inside the \<^verbatim>\<open>try\<close>, after the spinner was stopped
  and the status written: what its expression raises goes to the same clauses.
\<close>

definition gemini_fallback ::
  "terminal_ai \<Rightarrow> string \<Rightarrow> world \<Rightarrow> (error + pyval) \<times> terminal_ai \<times> world" where
  "gemini_fallback self prompt w =
     (case client self of
        None \<Rightarrow>
          (Inl (RuntimeError ''No AI client is available (both OpenAI and Gemini failed).''),
           self, w)
      | Some gc \<Rightarrow>
          (let start = now w;
               (spinner_stop, w1) = start_spinner [''Thinking'', ''Analysing''] 0.5 w;
               w2 = emit (GeminiSubmit prompt) w1;
               r = gc prompt
           in if latency r \<le> 7 then
                (let w3 = elapse (latency r) (emit (FutureWait 7) w2) in
                 case outcome r of
                   Inr resp \<Rightarrow>
                     (let w4 = spinner_set spinner_stop w3;
                          duration_ms = py_int ((now w4 - start) * 1000);
                          self1 = self\<lparr>last_status :=
                                         store_duration (last_status self) duration_ms\<rparr>
                      in case getattr_text resp of
                           Inr v \<Rightarrow> (Inr v, self1, executor_exit start (latency r) w4)
                         | Inl exc \<Rightarrow>
                             (let (err, w5) = except_clauses exc spinner_stop w4
                              in (Inl err, self1, executor_exit start (latency r) w5)))
                 | Inl exc \<Rightarrow>
                     (let (err, w4) = except_clauses exc spinner_stop w3
                      in (Inl err, self, executor_exit start (latency r) w4)))
              else
                (let w3 = elapse 7 (emit (FutureWait 7) w2);
                     (err, w4) = except_clauses (FuturesTimeoutError []) spinner_stop w3
                 in (Inl err, self, executor_exit start (latency r) w4))))"

text \<open>\<^verbatim>\<open>_generate_with_fallback(self, prompt)\<close>\<close>

definition generate_with_fallback ::
  "terminal_ai \<Rightarrow> string \<Rightarrow> world \<Rightarrow> (error + pyval) \<times> terminal_ai \<times> world" where
  "generate_with_fallback self prompt w =
     (case openai_phase self prompt w of
        (Some left, self1, w1) \<Rightarrow> (left, self1, w1)
      | (None, self1, w1) \<Rightarrow> gemini_fallback self1 prompt w1)"

text \<open>The world at the moment of a call: a clock reading, nothing done yet.\<close>

definition at_start :: "real \<Rightarrow> world" where
  "at_start t = \<lparr>now = t, next_handle = 0, trace = []\<rparr>"

section \<open>Vocabulary of the statements\<close>

text \<open>
  How one OpenAI attempt ends: it fails (raises an \<^verbatim>\<open>Exception\<close>, which the loop
  catches), it returns, or it raises past the handler.
\<close>

definition fails :: "pyval reply \<Rightarrow> bool" where
  "fails r = (case outcome r of Inl e \<Rightarrow> caught e | Inr v \<Rightarrow> False)"

definition returns :: "pyval reply \<Rightarrow> bool" where
  "returns r = (case outcome r of Inl e \<Rightarrow> False | Inr v \<Rightarrow> True)"

definition interrupts :: "pyval reply \<Rightarrow> bool" where
  "interrupts r = (case outcome r of Inl e \<Rightarrow> \<not> caught e | Inr v \<Rightarrow> False)"

text \<open>
  OpenAI is configured and all three attempts fail: the method goes on to Gemini with
  the fallback header set.
\<close>

definition openai_exhausted :: "terminal_ai \<Rightarrow> string \<Rightarrow> bool" where
  "openai_exhausted self prompt =
     (case openai_client self of
        None \<Rightarrow> False
      | Some oc \<Rightarrow> list_all (\<lambda>k. fails (oc prompt k)) [0, 1, 2])"

text \<open>OpenAI is configured and an attempt succeeds, those before it having failed.\<close>

definition openai_succeeds :: "terminal_ai \<Rightarrow> string \<Rightarrow> bool" where
  "openai_succeeds self prompt =
     (case openai_client self of
        None \<Rightarrow> False
      | Some oc \<Rightarrow>
          returns (oc prompt 0) \<or>
          fails (oc prompt 0) \<and> returns (oc prompt 1) \<or>
          fails (oc prompt 0) \<and> fails (oc prompt 1) \<and> returns (oc prompt 2))"

text \<open>
  OpenAI is configured and an attempt raises past the handler, those before it having
  failed.
\<close>

definition openai_interrupted :: "terminal_ai \<Rightarrow> string \<Rightarrow> bool" where
  "openai_interrupted self prompt =
     (case openai_client self of
        None \<Rightarrow> False
      | Some oc \<Rightarrow>
          interrupts (oc prompt 0) \<or>
          fails (oc prompt 0) \<and> interrupts (oc prompt 1) \<or>
          fails (oc prompt 0) \<and> fails (oc prompt 1) \<and> interrupts (oc prompt 2))"

text \<open>
  Gemini is configured and its call ends within the 7 seconds by raising past both
  handlers; Gemini is configured, answers within the 7 seconds, and the expression of
  the \<^verbatim>\<open>return\<close> raises.
\<close>

definition gemini_interrupted :: "terminal_ai \<Rightarrow> string \<Rightarrow> bool" where
  "gemini_interrupted self prompt =
     (case client self of
        None \<Rightarrow> False
      | Some gc \<Rightarrow>
          latency (gc prompt) \<le> 7 \<and>
          (case outcome (gc prompt) of Inl e \<Rightarrow> \<not> caught e | Inr resp \<Rightarrow> False))"

definition return_raises :: "terminal_ai \<Rightarrow> string \<Rightarrow> bool" where
  "return_raises self prompt =
     (case client self of
        None \<Rightarrow> False
      | Some gc \<Rightarrow>
          latency (gc prompt) \<le> 7 \<and>
          (case outcome (gc prompt) of Inl e \<Rightarrow> False | Inr resp \<Rightarrow> isl (getattr_text resp)))"

text \<open>The call ended by an exception that is not the method's own.\<close>

fun foreign :: "error + pyval \<Rightarrow> bool" where
  "foreign (Inl (Uncaught e)) = True"
| "foreign (Inl (RuntimeError m)) = False"
| "foreign (Inr v) = False"

text \<open>Projections of a trace.\<close>

fun sleep_of :: "event \<Rightarrow> real option" where
  "sleep_of (Sleep d) = Some d"
| "sleep_of _ = None"

definition sleeps :: "event list \<Rightarrow> real list" where
  "sleeps tr = List.map_filter sleep_of tr"

fun is_openai_call :: "event \<Rightarrow> bool" where
  "is_openai_call (OpenAICall p) = True"
| "is_openai_call _ = False"

fun is_gemini_submit :: "event \<Rightarrow> bool" where
  "is_gemini_submit (GeminiSubmit p) = True"
| "is_gemini_submit _ = False"

fun wait_of :: "event \<Rightarrow> real option" where
  "wait_of (FutureWait d) = Some d"
| "wait_of _ = None"

definition future_waits :: "event list \<Rightarrow> real list" where
  "future_waits tr = List.map_filter wait_of tr"

fun handle_of :: "event \<Rightarrow> nat option" where
  "handle_of (SpinnerStart h phases interval) = Some h"
| "handle_of (SpinnerSet h) = Some h"
| "handle_of _ = None"

text \<open>What happens to the spinner with stop event \<open>h\<close>, in order.\<close>

definition spinner_events :: "nat \<Rightarrow> event list \<Rightarrow> event list" where
  "spinner_events h tr = filter (\<lambda>e. handle_of e = Some h) tr"

text \<open>
  The invariant of the outcome record: reason \<^verbatim>\<open>openai_failed\<close> only with provider
  \<^verbatim>\<open>gemini\<close>.
\<close>

definition status_invariant :: "pydict option \<Rightarrow> bool" where
  "status_invariant s =
     (case s of
        None \<Rightarrow> True
      | Some d \<Rightarrow> map_of d ''reason'' = Some (PyStr ''openai_failed'') \<longrightarrow>
                  map_of d ''provider'' = Some (PyStr ''gemini''))"

text \<open>
  One call on a world where nothing was done yet, at clock reading \<open>t\<close>: what it
  returns or raises, the status it leaves, what it did, and how long it kept its caller.
\<close>

definition result_of :: "terminal_ai \<Rightarrow> string \<Rightarrow> real \<Rightarrow> error + pyval" where
  "result_of self prompt t = fst (generate_with_fallback self prompt (at_start t))"

definition status_after :: "terminal_ai \<Rightarrow> string \<Rightarrow> real \<Rightarrow> pydict option" where
  "status_after self prompt t =
     last_status (fst (snd (generate_with_fallback self prompt (at_start t))))"

definition trace_of :: "terminal_ai \<Rightarrow> string \<Rightarrow> real \<Rightarrow> event list" where
  "trace_of self prompt t = trace (snd (snd (generate_with_fallback self prompt (at_start t))))"

definition elapsed :: "terminal_ai \<Rightarrow> string \<Rightarrow> real \<Rightarrow> real" where
  "elapsed self prompt t = now (snd (snd (generate_with_fallback self prompt (at_start t)))) - t"

text \<open>
  Clients for the concrete runs below. \<open>failing_openai\<close> raises at every attempt,
  \<open>third_time_openai\<close> raises twice and then answers, \<open>quick_openai\<close> answers at
  once, \<open>interrupted_openai\<close> is interrupted at its first attempt; each attempt lasts
  one second. \<open>gemini_after d\<close> answers after \<open>d\<close> seconds, \<open>gemini_raising e\<close>
  raises \<open>e\<close> after one second, and \<open>gemini_unprintable\<close> answers after one second
  with a response whose \<^verbatim>\<open>str\<close> raises.
\<close>

definition failing_openai :: openai where
  "failing_openai prompt k = Reply 1 (Inl (OtherException ''rate limit''))"

definition third_time_openai :: openai where
  "third_time_openai prompt k =
     (if k = 2 then Reply 1 (Inr (PyStr ''done''))
      else Reply 1 (Inl (OtherException ''rate limit'')))"

definition quick_openai :: openai where
  "quick_openai prompt k = Reply 1 (Inr (PyStr ''done''))"

definition interrupted_openai :: openai where
  "interrupted_openai prompt k = Reply 1 (Inl (NonException ''KeyboardInterrupt''))"

definition gemini_after :: "real \<Rightarrow> gemini" where
  "gemini_after d prompt =
     Reply d (Inr (GeminiResponse (Attribute (PyStr ''answer'')) (Inr ''resp'')))"

definition gemini_raising :: "exn \<Rightarrow> gemini" where
  "gemini_raising e prompt = Reply 1 (Inl e)"

definition gemini_unprintable :: gemini where
  "gemini_unprintable prompt =
     Reply 1 (Inr (GeminiResponse (Attribute (PyStr ''answer''))
                     (Inl (OtherException ''no repr''))))"

section \<open>The exit paths\<close>

text \<open>
  The loop has three iterations and the fallback one call, so the method has finitely
  many paths. Each lemma gives the whole result on one path; the two case rules say
  that the paths are all there is.
\<close>

lemmas effect_defs = start_spinner_def emit_def elapse_def time_sleep_def spinner_set_def
  executor_exit_def

lemma openai_unconfigured:
  "openai_client self = None \<Longrightarrow> openai_phase self prompt w = (None, self, w)"
  by (simp add: openai_phase_def)

lemma openai_first:
  assumes "openai_client self = Some oc" "outcome (oc prompt 0) = Inr ans"
  shows "openai_phase self prompt w =
    (Some (Inr ans),
     self\<lparr>last_status := Some [(''provider'', PyStr ''openai''), (''reason'', PyStr ''ok''),
        (''duration_ms'', PyInt (py_int (latency (oc prompt 0) * 1000)))]\<rparr>,
     w\<lparr>now := now w + latency (oc prompt 0), next_handle := Suc (next_handle w),
       trace := trace w @ [SpinnerStart (next_handle w) [''Thinking'', ''Analysing''] 0.5,
          OpenAICall prompt, SpinnerSet (next_handle w)]\<rparr>)"
  using assms by (simp add: openai_phase_def effect_defs Let_def add.assoc)

lemma openai_second:
  assumes "openai_client self = Some oc" "outcome (oc prompt 0) = Inl e0" "caught e0"
    "outcome (oc prompt 1) = Inr ans"
  shows "openai_phase self prompt w =
    (Some (Inr ans),
     self\<lparr>last_status := Some [(''provider'', PyStr ''openai''), (''reason'', PyStr ''ok''),
        (''duration_ms'', PyInt (py_int
           ((latency (oc prompt 0) + 0.5 + latency (oc prompt 1)) * 1000)))]\<rparr>,
     w\<lparr>now := now w + latency (oc prompt 0) + 0.5 + latency (oc prompt 1),
       next_handle := Suc (next_handle w),
       trace := trace w @ [SpinnerStart (next_handle w) [''Thinking'', ''Analysing''] 0.5,
          OpenAICall prompt, Sleep 0.5, OpenAICall prompt, SpinnerSet (next_handle w)]\<rparr>)"
  using assms by (simp add: openai_phase_def effect_defs Let_def add.assoc)

lemma openai_third:
  assumes "openai_client self = Some oc" "outcome (oc prompt 0) = Inl e0" "caught e0"
    "outcome (oc prompt 1) = Inl e1" "caught e1" "outcome (oc prompt 2) = Inr ans"
  shows "openai_phase self prompt w =
    (Some (Inr ans),
     self\<lparr>last_status := Some [(''provider'', PyStr ''openai''), (''reason'', PyStr ''ok''),
        (''duration_ms'', PyInt (py_int
           ((latency (oc prompt 0) + 0.5 + latency (oc prompt 1) + 1 + latency (oc prompt 2))
            * 1000)))]\<rparr>,
     w\<lparr>now := now w + latency (oc prompt 0) + 0.5 + latency (oc prompt 1) + 1
              + latency (oc prompt 2),
       next_handle := Suc (next_handle w),
       trace := trace w @ [SpinnerStart (next_handle w) [''Thinking'', ''Analysing''] 0.5,
          OpenAICall prompt, Sleep 0.5, OpenAICall prompt, Sleep 1, OpenAICall prompt,
          SpinnerSet (next_handle w)]\<rparr>)"
  using assms by (simp add: openai_phase_def effect_defs Let_def add.assoc)

lemma openai_all_failed:
  assumes "openai_client self = Some oc" "outcome (oc prompt 0) = Inl e0" "caught e0"
    "outcome (oc prompt 1) = Inl e1" "caught e1" "outcome (oc prompt 2) = Inl e2" "caught e2"
  shows "openai_phase self prompt w =
    (None,
     self\<lparr>last_status := Some [(''provider'', PyStr ''gemini''),
        (''reason'', PyStr ''openai_failed''), (''error'', PyStr (str_exn e2))]\<rparr>,
     w\<lparr>now := now w + latency (oc prompt 0) + 0.5 + latency (oc prompt 1) + 1
              + latency (oc prompt 2) + 2,
       next_handle := Suc (next_handle w),
       trace := trace w @ [SpinnerStart (next_handle w) [''Thinking'', ''Analysing''] 0.5,
          OpenAICall prompt, Sleep 0.5, OpenAICall prompt, Sleep 1, OpenAICall prompt,
          Sleep 2, SpinnerSet (next_handle w)]\<rparr>)"
  using assms by (simp add: openai_phase_def effect_defs Let_def add.assoc)

lemma openai_passed_first:
  assumes "openai_client self = Some oc" "outcome (oc prompt 0) = Inl e0" "\<not> caught e0"
  shows "openai_phase self prompt w =
    (Some (Inl (Uncaught e0)), self,
     w\<lparr>now := now w + latency (oc prompt 0), next_handle := Suc (next_handle w),
       trace := trace w @ [SpinnerStart (next_handle w) [''Thinking'', ''Analysing''] 0.5,
          OpenAICall prompt]\<rparr>)"
  using assms by (simp add: openai_phase_def effect_defs Let_def add.assoc)

lemma openai_passed_second:
  assumes "openai_client self = Some oc" "outcome (oc prompt 0) = Inl e0" "caught e0"
    "outcome (oc prompt 1) = Inl e1" "\<not> caught e1"
  shows "openai_phase self prompt w =
    (Some (Inl (Uncaught e1)), self,
     w\<lparr>now := now w + latency (oc prompt 0) + 0.5 + latency (oc prompt 1),
       next_handle := Suc (next_handle w),
       trace := trace w @ [SpinnerStart (next_handle w) [''Thinking'', ''Analysing''] 0.5,
          OpenAICall prompt, Sleep 0.5, OpenAICall prompt]\<rparr>)"
  using assms by (simp add: openai_phase_def effect_defs Let_def add.assoc)

lemma openai_passed_third:
  assumes "openai_client self = Some oc" "outcome (oc prompt 0) = Inl e0" "caught e0"
    "outcome (oc prompt 1) = Inl e1" "caught e1" "outcome (oc prompt 2) = Inl e2"
    "\<not> caught e2"
  shows "openai_phase self prompt w =
    (Some (Inl (Uncaught e2)), self,
     w\<lparr>now := now w + latency (oc prompt 0) + 0.5 + latency (oc prompt 1) + 1
              + latency (oc prompt 2),
       next_handle := Suc (next_handle w),
       trace := trace w @ [SpinnerStart (next_handle w) [''Thinking'', ''Analysing''] 0.5,
          OpenAICall prompt, Sleep 0.5, OpenAICall prompt, Sleep 1, OpenAICall prompt]\<rparr>)"
  using assms by (simp add: openai_phase_def effect_defs Let_def add.assoc)

lemma openai_cases [case_names unconfigured first second third all_failed
    passed_first passed_second passed_third]:
  assumes "openai_client self = None \<Longrightarrow> P"
    and "\<And>oc ans. openai_client self = Some oc \<Longrightarrow> outcome (oc prompt 0) = Inr ans \<Longrightarrow> P"
    and "\<And>oc e0 ans. openai_client self = Some oc \<Longrightarrow> outcome (oc prompt 0) = Inl e0 \<Longrightarrow>
           caught e0 \<Longrightarrow> outcome (oc prompt 1) = Inr ans \<Longrightarrow> P"
    and "\<And>oc e0 e1 ans. openai_client self = Some oc \<Longrightarrow> outcome (oc prompt 0) = Inl e0 \<Longrightarrow>
           caught e0 \<Longrightarrow> outcome (oc prompt 1) = Inl e1 \<Longrightarrow> caught e1 \<Longrightarrow>
           outcome (oc prompt 2) = Inr ans \<Longrightarrow> P"
    and "\<And>oc e0 e1 e2. openai_client self = Some oc \<Longrightarrow> outcome (oc prompt 0) = Inl e0 \<Longrightarrow>
           caught e0 \<Longrightarrow> outcome (oc prompt 1) = Inl e1 \<Longrightarrow> caught e1 \<Longrightarrow>
           outcome (oc prompt 2) = Inl e2 \<Longrightarrow> caught e2 \<Longrightarrow> P"
    and "\<And>oc e0. openai_client self = Some oc \<Longrightarrow> outcome (oc prompt 0) = Inl e0 \<Longrightarrow>
           \<not> caught e0 \<Longrightarrow> P"
    and "\<And>oc e0 e1. openai_client self = Some oc \<Longrightarrow> outcome (oc prompt 0) = Inl e0 \<Longrightarrow>
           caught e0 \<Longrightarrow> outcome (oc prompt 1) = Inl e1 \<Longrightarrow> \<not> caught e1 \<Longrightarrow> P"
    and "\<And>oc e0 e1 e2. openai_client self = Some oc \<Longrightarrow> outcome (oc prompt 0) = Inl e0 \<Longrightarrow>
           caught e0 \<Longrightarrow> outcome (oc prompt 1) = Inl e1 \<Longrightarrow> caught e1 \<Longrightarrow>
           outcome (oc prompt 2) = Inl e2 \<Longrightarrow> \<not> caught e2 \<Longrightarrow> P"
  shows P
proof (cases "openai_client self")
  case None
  then show ?thesis by (rule assms(1))
next
  case (Some oc)
  show ?thesis
  proof (cases "outcome (oc prompt 0)")
    case (Inr ans)
    with Some show ?thesis by (rule assms(2))
  next
    case e0: (Inl e0)
    show ?thesis
    proof (cases "caught e0")
      case False
      with Some e0 show ?thesis by (rule assms(6))
    next
      case c0: True
      show ?thesis
      proof (cases "outcome (oc prompt 1)")
        case (Inr ans)
        with Some e0 c0 show ?thesis by (rule assms(3))
      next
        case e1: (Inl e1)
        show ?thesis
        proof (cases "caught e1")
          case False
          with Some e0 c0 e1 show ?thesis by (rule assms(7))
        next
          case c1: True
          show ?thesis
          proof (cases "outcome (oc prompt 2)")
            case (Inr ans)
            with Some e0 c0 e1 c1 show ?thesis by (rule assms(4))
          next
            case e2: (Inl e2)
            show ?thesis
            proof (cases "caught e2")
              case False
              with Some e0 c0 e1 c1 e2 show ?thesis by (rule assms(8))
            next
              case True
              with Some e0 c0 e1 c1 e2 show ?thesis by (rule assms(5))
            qed
          qed
        qed
      qed
    qed
  qed
qed

lemma gemini_absent:
  "client self = None \<Longrightarrow> gemini_fallback self prompt w =
     (Inl (RuntimeError ''No AI client is available (both OpenAI and Gemini failed).''),
      self, w)"
  by (simp add: gemini_fallback_def)

lemma gemini_too_late:
  assumes "client self = Some gc" "7 < latency (gc prompt)"
  shows "gemini_fallback self prompt w =
    (Inl (RuntimeError ''Gemini fallback timed out after 7 seconds''), self,
     w\<lparr>now := now w + latency (gc prompt), next_handle := Suc (next_handle w),
       trace := trace w @ [SpinnerStart (next_handle w) [''Thinking'', ''Analysing''] 0.5,
          GeminiSubmit prompt, FutureWait 7, SpinnerSet (next_handle w)]\<rparr>)"
  using assms by (simp add: gemini_fallback_def effect_defs Let_def max_def)

lemma gemini_raised_timeout:
  assumes "client self = Some gc" "latency (gc prompt) \<le> 7"
    "outcome (gc prompt) = Inl (FuturesTimeoutError s)"
  shows "gemini_fallback self prompt w =
    (Inl (RuntimeError ''Gemini fallback timed out after 7 seconds''), self,
     w\<lparr>now := now w + latency (gc prompt), next_handle := Suc (next_handle w),
       trace := trace w @ [SpinnerStart (next_handle w) [''Thinking'', ''Analysing''] 0.5,
          GeminiSubmit prompt, FutureWait 7, SpinnerSet (next_handle w)]\<rparr>)"
  using assms by (simp add: gemini_fallback_def effect_defs Let_def)

lemma gemini_failed:
  assumes "client self = Some gc" "latency (gc prompt) \<le> 7"
    "outcome (gc prompt) = Inl (OtherException s)"
  shows "gemini_fallback self prompt w =
    (Inl (RuntimeError (''Gemini fallback failed: '' @ s)), self,
     w\<lparr>now := now w + latency (gc prompt), next_handle := Suc (next_handle w),
       trace := trace w @ [SpinnerStart (next_handle w) [''Thinking'', ''Analysing''] 0.5,
          GeminiSubmit prompt, FutureWait 7, SpinnerSet (next_handle w)]\<rparr>)"
  using assms by (simp add: gemini_fallback_def effect_defs Let_def)

lemma gemini_passed:
  assumes "client self = Some gc" "latency (gc prompt) \<le> 7"
    "outcome (gc prompt) = Inl (NonException s)"
  shows "gemini_fallback self prompt w =
    (Inl (Uncaught (NonException s)), self,
     w\<lparr>now := now w + latency (gc prompt), next_handle := Suc (next_handle w),
       trace := trace w @ [SpinnerStart (next_handle w) [''Thinking'', ''Analysing''] 0.5,
          GeminiSubmit prompt, FutureWait 7]\<rparr>)"
  using assms by (simp add: gemini_fallback_def effect_defs Let_def)

lemma gemini_answered:
  assumes "client self = Some gc" "latency (gc prompt) \<le> 7" "outcome (gc prompt) = Inr resp"
    "getattr_text resp = Inr v"
  shows "gemini_fallback self prompt w =
    (Inr v,
     self\<lparr>last_status :=
        store_duration (last_status self) (py_int (latency (gc prompt) * 1000))\<rparr>,
     w\<lparr>now := now w + latency (gc prompt), next_handle := Suc (next_handle w),
       trace := trace w @ [SpinnerStart (next_handle w) [''Thinking'', ''Analysing''] 0.5,
          GeminiSubmit prompt, FutureWait 7, SpinnerSet (next_handle w)]\<rparr>)"
  using assms by (simp add: gemini_fallback_def effect_defs Let_def)

lemma gemini_return_raised_timeout:
  assumes "client self = Some gc" "latency (gc prompt) \<le> 7" "outcome (gc prompt) = Inr resp"
    "getattr_text resp = Inl (FuturesTimeoutError s)"
  shows "gemini_fallback self prompt w =
    (Inl (RuntimeError ''Gemini fallback timed out after 7 seconds''),
     self\<lparr>last_status :=
        store_duration (last_status self) (py_int (latency (gc prompt) * 1000))\<rparr>,
     w\<lparr>now := now w + latency (gc prompt), next_handle := Suc (next_handle w),
       trace := trace w @ [SpinnerStart (next_handle w) [''Thinking'', ''Analysing''] 0.5,
          GeminiSubmit prompt, FutureWait 7, SpinnerSet (next_handle w),
          SpinnerSet (next_handle w)]\<rparr>)"
  using assms by (simp add: gemini_fallback_def effect_defs Let_def)

lemma gemini_return_raised:
  assumes "client self = Some gc" "latency (gc prompt) \<le> 7" "outcome (gc prompt) = Inr resp"
    "getattr_text resp = Inl (OtherException s)"
  shows "gemini_fallback self prompt w =
    (Inl (RuntimeError (''Gemini fallback failed: '' @ s)),
     self\<lparr>last_status :=
        store_duration (last_status self) (py_int (latency (gc prompt) * 1000))\<rparr>,
     w\<lparr>now := now w + latency (gc prompt), next_handle := Suc (next_handle w),
       trace := trace w @ [SpinnerStart (next_handle w) [''Thinking'', ''Analysing''] 0.5,
          GeminiSubmit prompt, FutureWait 7, SpinnerSet (next_handle w),
          SpinnerSet (next_handle w)]\<rparr>)"
  using assms by (simp add: gemini_fallback_def effect_defs Let_def)

lemma gemini_return_passed:
  assumes "client self = Some gc" "latency (gc prompt) \<le> 7" "outcome (gc prompt) = Inr resp"
    "getattr_text resp = Inl (NonException s)"
  shows "gemini_fallback self prompt w =
    (Inl (Uncaught (NonException s)),
     self\<lparr>last_status :=
        store_duration (last_status self) (py_int (latency (gc prompt) * 1000))\<rparr>,
     w\<lparr>now := now w + latency (gc prompt), next_handle := Suc (next_handle w),
       trace := trace w @ [SpinnerStart (next_handle w) [''Thinking'', ''Analysing''] 0.5,
          GeminiSubmit prompt, FutureWait 7, SpinnerSet (next_handle w)]\<rparr>)"
  using assms by (simp add: gemini_fallback_def effect_defs Let_def)

lemma gemini_cases [case_names absent too_late raised_timeout failed passed answered
    return_raised_timeout return_raised return_passed]:
  assumes "client self = None \<Longrightarrow> P"
    and "\<And>gc. client self = Some gc \<Longrightarrow> 7 < latency (gc prompt) \<Longrightarrow> P"
    and "\<And>gc s. client self = Some gc \<Longrightarrow> latency (gc prompt) \<le> 7 \<Longrightarrow>
           outcome (gc prompt) = Inl (FuturesTimeoutError s) \<Longrightarrow> P"
    and "\<And>gc s. client self = Some gc \<Longrightarrow> latency (gc prompt) \<le> 7 \<Longrightarrow>
           outcome (gc prompt) = Inl (OtherException s) \<Longrightarrow> P"
    and "\<And>gc s. client self = Some gc \<Longrightarrow> latency (gc prompt) \<le> 7 \<Longrightarrow>
           outcome (gc prompt) = Inl (NonException s) \<Longrightarrow> P"
    and "\<And>gc resp v. client self = Some gc \<Longrightarrow> latency (gc prompt) \<le> 7 \<Longrightarrow>
           outcome (gc prompt) = Inr resp \<Longrightarrow> getattr_text resp = Inr v \<Longrightarrow> P"
    and "\<And>gc resp s. client self = Some gc \<Longrightarrow> latency (gc prompt) \<le> 7 \<Longrightarrow>
           outcome (gc prompt) = Inr resp \<Longrightarrow>
           getattr_text resp = Inl (FuturesTimeoutError s) \<Longrightarrow> P"
    and "\<And>gc resp s. client self = Some gc \<Longrightarrow> latency (gc prompt) \<le> 7 \<Longrightarrow>
           outcome (gc prompt) = Inr resp \<Longrightarrow>
           getattr_text resp = Inl (OtherException s) \<Longrightarrow> P"
    and "\<And>gc resp s. client self = Some gc \<Longrightarrow> latency (gc prompt) \<le> 7 \<Longrightarrow>
           outcome (gc prompt) = Inr resp \<Longrightarrow>
           getattr_text resp = Inl (NonException s) \<Longrightarrow> P"
  shows P
proof (cases "client self")
  case None
  then show ?thesis by (rule assms(1))
next
  case (Some gc)
  show ?thesis
  proof (cases "7 < latency (gc prompt)")
    case True
    with Some show ?thesis by (rule assms(2))
  next
    case False
    then have le: "latency (gc prompt) \<le> 7" by simp
    show ?thesis
    proof (cases "outcome (gc prompt)")
      case (Inl e)
      with Some le show ?thesis by (cases e) (simp_all add: assms(3,4,5))
    next
      case r: (Inr resp)
      show ?thesis
      proof (cases "getattr_text resp")
        case (Inr v)
        with Some le r show ?thesis by (rule assms(6))
      next
        case (Inl e)
        with Some le r show ?thesis by (cases e) (simp_all add: assms(7,8,9))
      qed
    qed
  qed
qed

lemmas openai_paths = openai_unconfigured openai_first openai_second openai_third
  openai_all_failed openai_passed_first openai_passed_second openai_passed_third

lemmas gemini_paths = gemini_absent gemini_too_late gemini_raised_timeout gemini_failed
  gemini_passed gemini_answered gemini_return_raised_timeout gemini_return_raised
  gemini_return_passed

lemmas run_defs = result_of_def status_after_def trace_of_def elapsed_def at_start_def

lemmas example_defs = failing_openai_def third_time_openai_def quick_openai_def
  interrupted_openai_def gemini_after_def gemini_raising_def gemini_unprintable_def

lemmas end_defs = fails_def returns_def interrupts_def

section \<open>Composing the two parts\<close>

lemma generate_unconfigured:
  "openai_client self = None \<Longrightarrow>
     generate_with_fallback self prompt w = gemini_fallback self prompt w"
  by (simp add: generate_with_fallback_def openai_unconfigured)

lemma generate_left:
  "openai_phase self prompt w = (Some left, self1, w1) \<Longrightarrow>
     generate_with_fallback self prompt w = (left, self1, w1)"
  by (simp add: generate_with_fallback_def)

lemma generate_fell_through:
  "openai_phase self prompt w = (None, self1, w1) \<Longrightarrow>
     generate_with_fallback self prompt w = gemini_fallback self1 prompt w1"
  by (simp add: generate_with_fallback_def)

lemma openai_keeps_clients:
  "client (fst (snd (openai_phase self prompt w))) = client self"
  by (cases rule: openai_cases [where self = self and prompt = prompt])
     (simp_all add: openai_paths)

lemma map_filter_append:
  "List.map_filter f (xs @ ys) = List.map_filter f xs @ List.map_filter f ys"
  by (simp add: List.map_filter_def)

text \<open>Control goes on to Gemini exactly when OpenAI is not configured or exhausted.\<close>

lemma openai_phase_goes_on:
  "fst (openai_phase self prompt w) = None \<longleftrightarrow>
     openai_client self = None \<or> openai_exhausted self prompt"
  by (cases rule: openai_cases [where self = self and prompt = prompt])
     (simp_all add: openai_paths openai_exhausted_def end_defs)

text \<open>
  When OpenAI is not configured or has failed three times, the method is the Gemini
  part, run on a world in which Gemini has not been used yet.
\<close>

lemma reaches_gemini:
  assumes "openai_client self = None \<or> openai_exhausted self prompt"
  obtains self1 w1 where
    "generate_with_fallback self prompt w = gemini_fallback self1 prompt w1"
    "client self1 = client self"
    "filter is_gemini_submit (trace w1) = filter is_gemini_submit (trace w)"
    "future_waits (trace w1) = future_waits (trace w)"
proof (cases rule: openai_cases [where self = self and prompt = prompt])
  case unconfigured
  then have "generate_with_fallback self prompt w = gemini_fallback self prompt w"
    by (rule generate_unconfigured)
  then show ?thesis using that by blast
next
  case (all_failed oc e0 e1 e2)
  show ?thesis
    by (rule that [OF generate_fell_through [OF openai_all_failed [OF all_failed]]])
       (simp_all add: future_waits_def map_filter_append)
qed (use assms in \<open>simp_all add: openai_exhausted_def end_defs\<close>)

subsection \<open>What the two parts add to the trace\<close>


lemma gemini_fallback_openai_calls:
  "filter is_openai_call (trace (snd (snd (gemini_fallback self prompt w)))) =
     filter is_openai_call (trace w)"
  by (cases rule: gemini_cases [where self = self and prompt = prompt])
     (simp_all add: gemini_paths)


lemma openai_phase_openai_calls:
  "length (filter is_openai_call (trace (snd (snd (openai_phase self prompt w))))) \<le>
     length (filter is_openai_call (trace w)) + 3"
  by (cases rule: openai_cases [where self = self and prompt = prompt])
     (simp_all add: openai_paths)


lemma openai_never_more_than_three:
  "length (filter is_openai_call (trace_of self prompt t)) \<le> 3"
proof -
  obtain r self1 w1 where op: "openai_phase self prompt (at_start t) = (r, self1, w1)"
    by (cases "openai_phase self prompt (at_start t)")
  have three: "length (filter is_openai_call (trace w1)) \<le> 3"
    using openai_phase_openai_calls [of self prompt "at_start t"] op
    by (simp add: at_start_def)
  show ?thesis
  proof (cases r)
    case (Some left)
    with op three show ?thesis by (simp add: trace_of_def generate_with_fallback_def)
  next
    case None
    with op three show ?thesis
      by (simp add: trace_of_def generate_with_fallback_def gemini_fallback_openai_calls)
  qed
qed

lemma gemini_fallback_result:
  assumes "client self = Some gc"
  shows "7 < latency (gc prompt) \<Longrightarrow> fst (gemini_fallback self prompt w) =
           Inl (RuntimeError ''Gemini fallback timed out after 7 seconds'')"
    and "latency (gc prompt) \<le> 7 \<Longrightarrow> outcome (gc prompt) = Inl (FuturesTimeoutError s) \<Longrightarrow>
           fst (gemini_fallback self prompt w) =
           Inl (RuntimeError ''Gemini fallback timed out after 7 seconds'')"
    and "latency (gc prompt) \<le> 7 \<Longrightarrow> outcome (gc prompt) = Inl (OtherException s) \<Longrightarrow>
           fst (gemini_fallback self prompt w) =
           Inl (RuntimeError (''Gemini fallback failed: '' @ s))"
    and "latency (gc prompt) \<le> 7 \<Longrightarrow> outcome (gc prompt) = Inr resp \<Longrightarrow>
           getattr_text resp = Inr v \<Longrightarrow> fst (gemini_fallback self prompt w) = Inr v"
  using assms by (simp_all add: gemini_paths)

subsection \<open>The spinner handles of the two parts\<close>

lemma openai_phase_spinner:
  "spinner_events h (trace (snd (snd (openai_phase self prompt w)))) =
     spinner_events h (trace w) @
     (if openai_client self \<noteq> None \<and> h = next_handle w
      then (if openai_interrupted self prompt
            then [SpinnerStart h [''Thinking'', ''Analysing''] 0.5]
            else [SpinnerStart h [''Thinking'', ''Analysing''] 0.5, SpinnerSet h])
      else [])"
  by (cases rule: openai_cases [where self = self and prompt = prompt])
     (simp_all add: openai_paths spinner_events_def openai_interrupted_def end_defs)

lemma openai_phase_handle:
  "next_handle (snd (snd (openai_phase self prompt w))) =
     (if openai_client self = None then next_handle w else Suc (next_handle w))"
  by (cases rule: openai_cases [where self = self and prompt = prompt])
     (simp_all add: openai_paths)

lemma gemini_fallback_spinner:
  assumes "\<not> gemini_interrupted self prompt" and "\<not> return_raises self prompt"
  shows "spinner_events h (trace (snd (snd (gemini_fallback self prompt w)))) =
     spinner_events h (trace w) @
     (if client self \<noteq> None \<and> h = next_handle w
      then [SpinnerStart h [''Thinking'', ''Analysing''] 0.5, SpinnerSet h] else [])"
  using assms
  by (cases rule: gemini_cases [where self = self and prompt = prompt])
     (simp_all add: gemini_paths spinner_events_def gemini_interrupted_def return_raises_def)

text \<open>
  A call that is interrupted, in either part, ends by an exception that is not the
  method's own.
\<close>

lemma gemini_interrupted_foreign:
  "gemini_interrupted self prompt \<Longrightarrow> foreign (fst (gemini_fallback self prompt w))"
  by (cases rule: gemini_cases [where self = self and prompt = prompt])
     (simp_all add: gemini_paths gemini_interrupted_def)

lemma openai_interrupted_foreign:
  "openai_interrupted self prompt \<Longrightarrow> foreign (fst (generate_with_fallback self prompt w))"
proof (cases rule: openai_cases [where self = self and prompt = prompt])
  case (passed_first oc e0)
  show ?thesis by (simp add: generate_left [OF openai_passed_first [OF passed_first]])
next
  case (passed_second oc e0 e1)
  show ?thesis by (simp add: generate_left [OF openai_passed_second [OF passed_second]])
next
  case (passed_third oc e0 e1 e2)
  show ?thesis by (simp add: generate_left [OF openai_passed_third [OF passed_third]])
qed (simp_all add: openai_interrupted_def end_defs)

lemma reached_gemini_interrupted_foreign:
  assumes "openai_client self = None \<or> openai_exhausted self prompt"
    and "gemini_interrupted self prompt"
  shows "foreign (fst (generate_with_fallback self prompt w))"
proof -
  obtain self1 w1 where
    g: "generate_with_fallback self prompt w = gemini_fallback self1 prompt w1"
    and c: "client self1 = client self"
    using reaches_gemini [OF assms(1), where w = w] by metis
  have "gemini_interrupted self1 prompt"
    using assms(2) c by (simp add: gemini_interrupted_def)
  then show ?thesis by (simp add: g gemini_interrupted_foreign)
qed

text \<open>
  Without interruption and without an exception from the expression of the
  \<^verbatim>\<open>return\<close>, each spinner that is started is stopped once.
\<close>

lemma spinner_once:
  assumes "\<not> openai_interrupted self prompt"
    and "openai_client self = None \<or> openai_exhausted self prompt \<longrightarrow>
           \<not> gemini_interrupted self prompt \<and> \<not> return_raises self prompt"
  shows "(spinner_events h (trace_of self prompt t) = [] \<or>
    spinner_events h (trace_of self prompt t) =
      [SpinnerStart h [''Thinking'', ''Analysing''] 0.5, SpinnerSet h]) \<and>
   (openai_client self \<noteq> None \<or> client self \<noteq> None \<longrightarrow>
      spinner_events 0 (trace_of self prompt t) =
        [SpinnerStart 0 [''Thinking'', ''Analysing''] 0.5, SpinnerSet 0])"
proof -
  obtain r self1 w1 where op: "openai_phase self prompt (at_start t) = (r, self1, w1)"
    by (cases "openai_phase self prompt (at_start t)")
  have tr1: "spinner_events h (trace w1) =
      (if openai_client self \<noteq> None \<and> h = 0
       then [SpinnerStart h [''Thinking'', ''Analysing''] 0.5, SpinnerSet h] else [])" for h
    using openai_phase_spinner [of h self prompt "at_start t"] op assms(1)
    by (simp add: at_start_def spinner_events_def)
  have h1: "next_handle w1 = (if openai_client self = None then 0 else 1)"
    using openai_phase_handle [of self prompt "at_start t"] op by (simp add: at_start_def)
  have c1: "client self1 = client self"
    using openai_keeps_clients [of self prompt "at_start t"] op by simp
  have r1: "r = None \<longleftrightarrow> openai_client self = None \<or> openai_exhausted self prompt"
    using openai_phase_goes_on [of self prompt "at_start t"] op by simp
  show ?thesis
  proof (cases r)
    case (Some left)
    then have "trace_of self prompt t = trace w1"
      by (simp add: trace_of_def generate_with_fallback_def op)
    moreover have "openai_client self \<noteq> None" using r1 Some by auto
    ultimately show ?thesis using tr1 by auto
  next
    case None
    then have "trace_of self prompt t = trace (snd (snd (gemini_fallback self1 prompt w1)))"
      by (simp add: trace_of_def generate_with_fallback_def op)
    moreover have "gemini_interrupted self1 prompt = gemini_interrupted self prompt"
      "return_raises self1 prompt = return_raises self prompt"
      using c1 by (simp_all add: gemini_interrupted_def return_raises_def)
    then have "\<not> gemini_interrupted self1 prompt" "\<not> return_raises self1 prompt"
      using assms(2) r1 None by blast+
    ultimately show ?thesis
      using tr1 h1 c1 gemini_fallback_spinner [of self1 prompt _ w1]
      by (auto split: if_splits)
  qed
qed

subsection \<open>The status record\<close>

lemma store_duration_invariant:
  "status_invariant s \<Longrightarrow> status_invariant (store_duration s ms)"
  by (auto simp: status_invariant_def store_duration_def falsy_def update_conv'
        split: option.splits)

lemma gemini_answer_status:
  assumes "client self = Some gc" "latency (gc prompt) \<le> 7" "outcome (gc prompt) = Inr resp"
  shows "last_status (fst (snd (gemini_fallback self prompt w))) =
     store_duration (last_status self) (py_int (latency (gc prompt) * 1000))"
proof (cases "getattr_text resp")
  case (Inr v)
  with assms show ?thesis by (simp add: gemini_paths)
next
  case (Inl e)
  with assms show ?thesis by (cases e) (simp_all add: gemini_paths)
qed

lemma openai_phase_invariant:
  "status_invariant (last_status self) \<Longrightarrow>
     status_invariant (last_status (fst (snd (openai_phase self prompt w))))"
  by (cases rule: openai_cases [where self = self and prompt = prompt])
     (simp_all add: openai_paths status_invariant_def)

lemma gemini_fallback_invariant:
  "status_invariant (last_status self) \<Longrightarrow>
     status_invariant (last_status (fst (snd (gemini_fallback self prompt w))))"
  by (cases rule: gemini_cases [where self = self and prompt = prompt])
     (simp_all add: gemini_paths store_duration_invariant)

lemma generate_invariant:
  assumes "status_invariant (last_status self)"
  shows "status_invariant (last_status (fst (snd (generate_with_fallback self prompt w))))"
proof -
  obtain r self1 w1 where op: "openai_phase self prompt w = (r, self1, w1)"
    by (cases "openai_phase self prompt w")
  have inv1: "status_invariant (last_status self1)"
    using openai_phase_invariant [OF assms, of prompt w] op by simp
  show ?thesis
  proof (cases r)
    case (Some left)
    with op inv1 show ?thesis by (simp add: generate_with_fallback_def)
  next
    case None
    with op gemini_fallback_invariant [OF inv1, of prompt w1] show ?thesis
      by (simp add: generate_with_fallback_def)
  qed
qed

lemma openai_success:
  assumes "openai_succeeds self prompt"
  shows "\<exists>ans ms. fst (generate_with_fallback self prompt w) = Inr ans \<and>
     last_status (fst (snd (generate_with_fallback self prompt w))) =
       Some [(''provider'', PyStr ''openai''), (''reason'', PyStr ''ok''),
             (''duration_ms'', PyInt ms)]"
proof (cases rule: openai_cases [where self = self and prompt = prompt])
  case (first oc ans)
  show ?thesis by (simp add: generate_left [OF openai_first [OF first]])
next
  case (second oc e0 ans)
  show ?thesis by (simp add: generate_left [OF openai_second [OF second]])
next
  case (third oc e0 e1 ans)
  show ?thesis by (simp add: generate_left [OF openai_third [OF third]])
qed (use assms in \<open>simp_all add: openai_succeeds_def end_defs\<close>)

subsection \<open>The spinner loop\<close>

lemma dots_nth: "dots ! (i mod 3) = replicate (Suc (i mod 3)) CHR ''.''"
proof -
  have "i mod 3 = 0 \<or> i mod 3 = 1 \<or> i mod 3 = 2" by arith
  then show ?thesis by (auto simp: dots_def numeral_2_eq_2)
qed

lemma spin_line_eq:
  assumes "phases \<noteq> []"
  shows "spin_line phases i =
     Some ([CHR 0x0D] @ phases ! ((i div 3) mod length phases) @ '' '' @
           replicate (Suc (i mod 3)) CHR ''.'' @ replicate 10 CHR '' '')"
  using assms by (simp add: spin_line_def spin_msg_def spin_phase_def dots_nth)

lemma spin_writes:
  assumes "phases \<noteq> []"
  shows "\<exists>ws. spin phases n j = Some ws \<and> length ws = Suc n \<and>
     (\<forall>i<n. Some (ws ! i) = spin_line phases (j + i)) \<and> ws ! n = clear_line"
proof (induction n arbitrary: j)
  case 0
  show ?case by simp
next
  case (Suc n)
  obtain l where l: "spin_line phases j = Some l"
    using spin_line_eq [OF assms] by blast
  obtain ws where ws: "spin phases n (Suc j) = Some ws" "length ws = Suc n"
    "\<forall>i<n. Some (ws ! i) = spin_line phases (Suc j + i)" "ws ! n = clear_line"
    using Suc.IH [of "Suc j"] by blast
  have "\<forall>i<Suc n. Some ((l # ws) ! i) = spin_line phases (j + i)"
  proof (intro allI impI)
    fix i assume "i < Suc n"
    then show "Some ((l # ws) ! i) = spin_line phases (j + i)"
      using l ws(3) by (cases i) simp_all
  qed
  with l ws show ?case by simp
qed

section \<open>The retry loop\<close>

text \<open>
  Claim C1. The claim: in the retry loop a backoff sleep follows a failed attempt only
  when that attempt is not the last of the three, so that no sleep separates the third
  failure from the fallback to Gemini. The source sleeps in the handler of every failed
  attempt (\<^verbatim>\<open>time.sleep(delay)\<close>, line 414, has no test for the last iteration): when
  all three attempts fail, the run sleeps 0.5, 1 and then 2 seconds, the last of them
  after the final attempt and before the spinner is stopped and Gemini is tried.
\<close>

theorem sleep_after_final_attempt:
  "trace_of \<lparr>client = Some (gemini_after 2), openai_client = Some failing_openai,
             last_status = None\<rparr> ''hello'' 0 =
     [SpinnerStart 0 [''Thinking'', ''Analysing''] 0.5,
      OpenAICall ''hello'', Sleep 0.5, OpenAICall ''hello'', Sleep 1, OpenAICall ''hello'',
      Sleep 2, SpinnerSet 0,
      SpinnerStart 1 [''Thinking'', ''Analysing''] 0.5, GeminiSubmit ''hello'', FutureWait 7,
      SpinnerSet 1]"
  by (simp add: run_defs example_defs generate_with_fallback_def openai_phase_def
        gemini_fallback_def effect_defs Let_def getattr_text_def)

text \<open>
  Claim C6. With OpenAI configured: when the first attempt succeeds there is no sleep
  and the call returns the text with status provider \<^verbatim>\<open>openai\<close>, reason \<^verbatim>\<open>ok\<close>; when
  attempts one and two fail (each raises an \<^verbatim>\<open>Exception\<close>) and the third succeeds
  there are exactly two sleeps, of 0.5 and then 1 second, with the same status; and no
  run makes more than three OpenAI attempts.
\<close>

theorem openai_retry_schedule:
  assumes "openai_client self = Some oc"
  shows "(\<forall>ans. outcome (oc prompt 0) = Inr ans \<longrightarrow>
        sleeps (trace_of self prompt t) = [] \<and>
        result_of self prompt t = Inr ans \<and>
        status_after self prompt t =
          Some [(''provider'', PyStr ''openai''), (''reason'', PyStr ''ok''),
                (''duration_ms'', PyInt (py_int (latency (oc prompt 0) * 1000)))]) \<and>
     (\<forall>e0 e1 ans. outcome (oc prompt 0) = Inl e0 \<and> caught e0 \<and>
        outcome (oc prompt 1) = Inl e1 \<and> caught e1 \<and> outcome (oc prompt 2) = Inr ans \<longrightarrow>
        sleeps (trace_of self prompt t) = [0.5, 1] \<and>
        result_of self prompt t = Inr ans \<and>
        status_after self prompt t =
          Some [(''provider'', PyStr ''openai''), (''reason'', PyStr ''ok''),
                (''duration_ms'', PyInt (py_int
                   ((latency (oc prompt 0) + 0.5 + latency (oc prompt 1) + 1
                     + latency (oc prompt 2)) * 1000)))]) \<and>
     length (filter is_openai_call (trace_of self prompt t)) \<le> 3"
proof (intro conjI allI impI)
  fix ans
  assume a: "outcome (oc prompt 0) = Inr ans"
  note g = generate_left [OF openai_first [OF assms a]]
  show "sleeps (trace_of self prompt t) = []"
    by (simp add: run_defs g sleeps_def)
  show "result_of self prompt t = Inr ans" by (simp add: run_defs g)
  show "status_after self prompt t =
          Some [(''provider'', PyStr ''openai''), (''reason'', PyStr ''ok''),
                (''duration_ms'', PyInt (py_int (latency (oc prompt 0) * 1000)))]"
    by (simp add: run_defs g)
next
  fix e0 e1 ans
  assume "outcome (oc prompt 0) = Inl e0 \<and> caught e0 \<and>
        outcome (oc prompt 1) = Inl e1 \<and> caught e1 \<and> outcome (oc prompt 2) = Inr ans"
  then have a: "outcome (oc prompt 0) = Inl e0" "caught e0" "outcome (oc prompt 1) = Inl e1"
    "caught e1" "outcome (oc prompt 2) = Inr ans" by simp_all
  note g = generate_left [OF openai_third [OF assms a]]
  show "sleeps (trace_of self prompt t) = [0.5, 1]"
    by (simp add: run_defs g sleeps_def)
  show "result_of self prompt t = Inr ans" by (simp add: run_defs g)
  show "status_after self prompt t =
          Some [(''provider'', PyStr ''openai''), (''reason'', PyStr ''ok''),
                (''duration_ms'', PyInt (py_int
                   ((latency (oc prompt 0) + 0.5 + latency (oc prompt 1) + 1
                     + latency (oc prompt 2)) * 1000)))]"
    by (simp add: run_defs g)
next
  show "length (filter is_openai_call (trace_of self prompt t)) \<le> 3"
    by (rule openai_never_more_than_three)
qed

theorem openai_retry_schedule_witness:
  "sleeps (trace_of \<lparr>client = None, openai_client = Some quick_openai,
                     last_status = None\<rparr> ''hello'' 0) = [] \<and>
   sleeps (trace_of \<lparr>client = None, openai_client = Some third_time_openai,
                     last_status = None\<rparr> ''hello'' 0) = [0.5, 1] \<and>
   result_of \<lparr>client = None, openai_client = Some third_time_openai,
              last_status = None\<rparr> ''hello'' 0 = Inr (PyStr ''done'') \<and>
   status_after \<lparr>client = None, openai_client = Some third_time_openai,
                 last_status = None\<rparr> ''hello'' 0 =
     Some [(''provider'', PyStr ''openai''), (''reason'', PyStr ''ok''),
           (''duration_ms'', PyInt 4500)]"
proof -
  let ?q = "\<lparr>client = None, openai_client = Some quick_openai, last_status = None\<rparr>"
  let ?s = "\<lparr>client = None, openai_client = Some third_time_openai, last_status = None\<rparr>"
  have q: "openai_client ?q = Some quick_openai" by simp
  have s: "openai_client ?s = Some third_time_openai" by simp
  have "outcome (quick_openai ''hello'' 0) = Inr (PyStr ''done'')"
    by (simp add: quick_openai_def)
  with openai_retry_schedule [OF q, of "''hello''" 0]
  have 1: "sleeps (trace_of ?q ''hello'' 0) = []" by blast
  have o: "outcome (third_time_openai ''hello'' 0) = Inl (OtherException ''rate limit'') \<and>
      caught (OtherException ''rate limit'') \<and>
      outcome (third_time_openai ''hello'' 1) = Inl (OtherException ''rate limit'') \<and>
      caught (OtherException ''rate limit'') \<and>
      outcome (third_time_openai ''hello'' 2) = Inr (PyStr ''done'')"
    by (simp add: third_time_openai_def)
  with openai_retry_schedule [OF s, of "''hello''" 0]
  have 2: "sleeps (trace_of ?s ''hello'' 0) = [0.5, 1] \<and>
      result_of ?s ''hello'' 0 = Inr (PyStr ''done'') \<and>
      status_after ?s ''hello'' 0 =
        Some [(''provider'', PyStr ''openai''), (''reason'', PyStr ''ok''),
          (''duration_ms'', PyInt (py_int
             ((latency (third_time_openai ''hello'' 0) + 0.5
               + latency (third_time_openai ''hello'' 1) + 1
               + latency (third_time_openai ''hello'' 2)) * 1000)))]"
    by blast
  have "py_int ((latency (third_time_openai ''hello'' 0) + 0.5
               + latency (third_time_openai ''hello'' 1) + 1
               + latency (third_time_openai ''hello'' 2)) * 1000) = 4500"
    by (simp add: third_time_openai_def py_int_def)
  with 1 2 show ?thesis by simp
qed

section \<open>The fallback\<close>

text \<open>
  Claim C2. The claim: when the Gemini call does not complete within 7 seconds the
  method gives control back to its caller after 7 seconds, leaving the call detached,
  and the caller never waits for it. In the source the \<^verbatim>\<open>RuntimeError\<close> is raised
  inside the \<^verbatim>\<open>with ThreadPoolExecutor\<close> block, whose exit waits for the worker
  thread: with a Gemini call that lasts 10 seconds, the method raises the timeout error
  10 seconds after it was called, not 7.
\<close>

theorem timeout_raised_when_worker_ends:
  "result_of \<lparr>client = Some (gemini_after 10), openai_client = None, last_status = None\<rparr>
     ''hello'' 0 = Inl (RuntimeError ''Gemini fallback timed out after 7 seconds'') \<and>
   elapsed \<lparr>client = Some (gemini_after 10), openai_client = None, last_status = None\<rparr>
     ''hello'' 0 = 10"
  by (simp add: run_defs example_defs generate_with_fallback_def openai_phase_def
        gemini_fallback_def effect_defs Let_def getattr_text_def)

text \<open>
  Claim C3, as stated: without a Gemini client the message of the error depends on
  whether OpenAI was configured, and is \<^verbatim>\<open>No AI client is available.\<close> when it was
  not. The source has one message; with neither client configured the error is not
  the one the claim gives.
\<close>

theorem unconfigured_openai_message:
  "result_of \<lparr>client = None, openai_client = None, last_status = None\<rparr> ''hello'' 0 \<noteq>
     Inl (RuntimeError ''No AI client is available.'')"
  by (simp add: run_defs generate_with_fallback_def openai_phase_def gemini_fallback_def)

text \<open>
  Claim C3, amended. Without a Gemini client, when OpenAI is not configured or its
  three attempts have failed, the method raises \<^verbatim>\<open>RuntimeError\<close> with the message
  \<^verbatim>\<open>No AI client is available (both OpenAI and Gemini failed).\<close> in both cases.
\<close>

theorem no_client_single_message:
  assumes "client self = None"
    and "openai_client self = None \<or> openai_exhausted self prompt"
  shows "fst (generate_with_fallback self prompt w) =
     Inl (RuntimeError ''No AI client is available (both OpenAI and Gemini failed).'')"
proof -
  obtain self1 w1 where
    "generate_with_fallback self prompt w = gemini_fallback self1 prompt w1"
    "client self1 = None"
    using reaches_gemini [OF assms(2), where w = w] assms(1) by metis
  then show ?thesis by (simp add: gemini_absent)
qed

theorem no_client_single_message_witness:
  "fst (generate_with_fallback \<lparr>client = None, openai_client = None, last_status = None\<rparr>
          ''hello'' (at_start 0)) =
     Inl (RuntimeError ''No AI client is available (both OpenAI and Gemini failed).'') \<and>
   openai_exhausted \<lparr>client = None, openai_client = Some failing_openai,
                     last_status = None\<rparr> ''hello'' \<and>
   fst (generate_with_fallback \<lparr>client = None, openai_client = Some failing_openai,
                                last_status = None\<rparr> ''hello'' (at_start 0)) =
     Inl (RuntimeError ''No AI client is available (both OpenAI and Gemini failed).'')"
proof -
  let ?a = "\<lparr>client = None, openai_client = None, last_status = None\<rparr>"
  let ?b = "\<lparr>client = None, openai_client = Some failing_openai, last_status = None\<rparr>"
  have ex: "openai_exhausted ?b ''hello''"
    by (simp add: openai_exhausted_def failing_openai_def fails_def)
  have a: "client ?a = None" "openai_client ?a = None \<or> openai_exhausted ?a ''hello''"
    by simp_all
  have b: "client ?b = None" "openai_client ?b = None \<or> openai_exhausted ?b ''hello''"
    using ex by simp_all
  show ?thesis
    using no_client_single_message [OF a, of "at_start 0"]
      no_client_single_message [OF b, of "at_start 0"] ex
    by simp
qed




text \<open>
  Claim C9. With neither client configured the method raises at once: the error is the
  \<^verbatim>\<open>RuntimeError\<close> of line 422, the instance is unchanged, and so is the world, that
  is, no call was made, no spinner was started, no time has passed.
\<close>

theorem no_provider_fails_at_once:
  assumes "client self = None" and "openai_client self = None"
  shows "generate_with_fallback self prompt w =
     (Inl (RuntimeError ''No AI client is available (both OpenAI and Gemini failed).''),
      self, w)"
  using assms by (simp add: generate_unconfigured gemini_absent)

theorem no_provider_fails_at_once_witness:
  "generate_with_fallback \<lparr>client = None, openai_client = None, last_status = None\<rparr>
      ''hello'' (at_start 0) =
     (Inl (RuntimeError ''No AI client is available (both OpenAI and Gemini failed).''),
      \<lparr>client = None, openai_client = None, last_status = None\<rparr>, at_start 0) \<and>
   trace_of \<lparr>client = None, openai_client = None, last_status = None\<rparr> ''hello'' 0 = [] \<and>
   elapsed \<lparr>client = None, openai_client = None, last_status = None\<rparr> ''hello'' 0 = 0"
  using no_provider_fails_at_once
          [of "\<lparr>client = None, openai_client = None, last_status = None\<rparr>"
              "''hello''" "at_start 0"]
  by (simp add: run_defs)

section \<open>The status record and the spinner\<close>

text \<open>
  Claim C5. The status satisfies: reason \<^verbatim>\<open>openai_failed\<close> implies provider
  \<^verbatim>\<open>gemini\<close>. A new instance has no status, which satisfies this, and every call
  keeps it, whether it returns or raises; so it holds after any number of calls. And
  when one of the OpenAI attempts succeeds, the call returns with status provider
  \<^verbatim>\<open>openai\<close>, reason \<^verbatim>\<open>ok\<close>.
\<close>

theorem status_invariant_kept:
  assumes "status_invariant (last_status self)"
  shows "status_invariant (last_status (fst (snd (generate_with_fallback self prompt w)))) \<and>
     (openai_succeeds self prompt \<longrightarrow>
        (\<exists>ans ms. fst (generate_with_fallback self prompt w) = Inr ans \<and>
           last_status (fst (snd (generate_with_fallback self prompt w))) =
             Some [(''provider'', PyStr ''openai''), (''reason'', PyStr ''ok''),
                   (''duration_ms'', PyInt ms)]))"
  using generate_invariant [OF assms] openai_success by blast

theorem status_invariant_kept_witness:
  "status_invariant None \<and>
   status_invariant (last_status (fst (snd (generate_with_fallback
      \<lparr>client = Some (gemini_after 3), openai_client = Some failing_openai,
       last_status = None\<rparr> ''hello'' (at_start 0))))) \<and>
   openai_succeeds \<lparr>client = Some (gemini_after 3), openai_client = Some third_time_openai,
                    last_status = None\<rparr> ''hello'' \<and>
   (\<exists>ans ms. fst (generate_with_fallback
      \<lparr>client = Some (gemini_after 3), openai_client = Some third_time_openai,
       last_status = None\<rparr> ''hello'' (at_start 0)) = Inr ans \<and>
     last_status (fst (snd (generate_with_fallback
      \<lparr>client = Some (gemini_after 3), openai_client = Some third_time_openai,
       last_status = None\<rparr> ''hello'' (at_start 0)))) =
       Some [(''provider'', PyStr ''openai''), (''reason'', PyStr ''ok''),
             (''duration_ms'', PyInt ms)])"
proof -
  let ?a = "\<lparr>client = Some (gemini_after 3), openai_client = Some failing_openai,
             last_status = None\<rparr>"
  let ?b = "\<lparr>client = Some (gemini_after 3), openai_client = Some third_time_openai,
             last_status = None\<rparr>"
  have n: "status_invariant None" by (simp add: status_invariant_def)
  have a: "status_invariant (last_status ?a)" using n by simp
  have b: "status_invariant (last_status ?b)" using n by simp
  have s: "openai_succeeds ?b ''hello''"
    by (simp add: openai_succeeds_def third_time_openai_def end_defs)
  from status_invariant_kept [OF a, of "''hello''" "at_start 0"]
    status_invariant_kept [OF b, of "''hello''" "at_start 0"] n s
  show ?thesis by blast
qed

text \<open>
  Claim C10. On an instance whose status is already a non-empty dict, a call that
  does not try OpenAI (it is not configured) and gets an answer from Gemini in time
  writes \<^verbatim>\<open>duration_ms\<close> only: every other key of the status, provider and reason
  among them, keeps the value an earlier call left. The call returns the value of the
  \<^verbatim>\<open>return\<close> expression when that has one.
\<close>

theorem stale_status_kept:
  assumes "openai_client self = None" and "client self = Some gc"
    and "last_status self = Some d" and "d \<noteq> []"
    and "latency (gc prompt) \<le> 7" and "outcome (gc prompt) = Inr resp"
  shows "(\<forall>v. getattr_text resp = Inr v \<longrightarrow>
        fst (generate_with_fallback self prompt w) = Inr v) \<and>
     last_status (fst (snd (generate_with_fallback self prompt w))) =
       Some (AList.update ''duration_ms'' (PyInt (py_int (latency (gc prompt) * 1000))) d) \<and>
     (\<forall>k. k \<noteq> ''duration_ms'' \<longrightarrow>
        map_of (AList.update ''duration_ms'' (PyInt (py_int (latency (gc prompt) * 1000))) d) k
          = map_of d k)"
proof -
  have g: "generate_with_fallback self prompt w = gemini_fallback self prompt w"
    using assms(1) by (rule generate_unconfigured)
  have "last_status (fst (snd (gemini_fallback self prompt w))) =
      store_duration (last_status self) (py_int (latency (gc prompt) * 1000))"
    by (rule gemini_answer_status [OF assms(2,5,6)])
  then have "last_status (fst (snd (generate_with_fallback self prompt w))) =
       Some (AList.update ''duration_ms'' (PyInt (py_int (latency (gc prompt) * 1000))) d)"
    using assms(3,4) by (simp add: g store_duration_def falsy_def)
  moreover have "\<forall>v. getattr_text resp = Inr v \<longrightarrow>
        fst (generate_with_fallback self prompt w) = Inr v"
    using gemini_fallback_result(4) [OF assms(2,5,6)] by (simp add: g)
  ultimately show ?thesis by (simp add: update_conv')
qed

theorem stale_status_kept_witness:
  "last_status (fst (snd (generate_with_fallback
      \<lparr>client = Some (gemini_after 2), openai_client = None,
       last_status = Some [(''provider'', PyStr ''openai''), (''reason'', PyStr ''ok''),
                           (''duration_ms'', PyInt 40)]\<rparr> ''hello'' (at_start 0)))) =
     Some [(''provider'', PyStr ''openai''), (''reason'', PyStr ''ok''),
           (''duration_ms'', PyInt 2000)]"
  using stale_status_kept
          [of "\<lparr>client = Some (gemini_after 2), openai_client = None,
               last_status = Some [(''provider'', PyStr ''openai''), (''reason'', PyStr ''ok''),
                                   (''duration_ms'', PyInt 40)]\<rparr>"
              "gemini_after 2"
              "[(''provider'', PyStr ''openai''), (''reason'', PyStr ''ok''),
                (''duration_ms'', PyInt 40)]"
              "''hello''" "GeminiResponse (Attribute (PyStr ''answer'')) (Inr ''resp'')"
              "at_start 0"]
  by (simp add: py_int_def gemini_after_def)

text \<open>
  Claim C8, as stated: on every exit path a spinner that was started is signalled to
  stop exactly once. In the source the \<^verbatim>\<open>return\<close> of line 436 is inside the
  \<^verbatim>\<open>try\<close>, after \<^verbatim>\<open>spinner_stop.set()\<close> at line 430: when \<^verbatim>\<open>str(resp)\<close> raises,
  the handler of line 440 calls \<^verbatim>\<open>set()\<close> a second time. And the handlers catch
  \<^verbatim>\<open>Exception\<close> only: when an OpenAI attempt raises \<^verbatim>\<open>KeyboardInterrupt\<close>, the
  method is left with the spinner never signalled.
\<close>

theorem spinner_set_twice_or_never:
  "spinner_events 0 (trace_of \<lparr>client = Some gemini_unprintable, openai_client = None,
                               last_status = None\<rparr> ''hello'' 0) =
     [SpinnerStart 0 [''Thinking'', ''Analysing''] 0.5, SpinnerSet 0, SpinnerSet 0] \<and>
   spinner_events 0 (trace_of \<lparr>client = None, openai_client = Some interrupted_openai,
                               last_status = None\<rparr> ''hello'' 0) =
     [SpinnerStart 0 [''Thinking'', ''Analysing''] 0.5]"
  by (simp add: run_defs example_defs generate_with_fallback_def openai_phase_def
        gemini_fallback_def effect_defs Let_def getattr_text_def spinner_events_def)

text \<open>
  Claim C8, amended. On every exit path on which the method returns or raises its own
  \<^verbatim>\<open>RuntimeError\<close> (OpenAI success, OpenAI exhaustion followed by Gemini success,
  Gemini timeout, Gemini failure or no Gemini client) and on which the expression of
  the \<^verbatim>\<open>return\<close> in the Gemini part raised nothing: for every stop event \<open>h\<close>, what
  the trace of the call holds about it is either nothing (no such spinner was started)
  or exactly its start followed by one \<^verbatim>\<open>set()\<close>. That is, a spinner that was started
  is signalled to stop exactly once, after its start and before the method returns or
  raises. With at least one client configured a spinner is started, so this is not
  empty.
\<close>

theorem spinner_set_exactly_once:
  assumes "\<not> foreign (result_of self prompt t)"
    and "openai_client self = None \<or> openai_exhausted self prompt \<longrightarrow>
           \<not> return_raises self prompt"
  shows "(spinner_events h (trace_of self prompt t) = [] \<or>
    spinner_events h (trace_of self prompt t) =
      [SpinnerStart h [''Thinking'', ''Analysing''] 0.5, SpinnerSet h]) \<and>
   (openai_client self \<noteq> None \<or> client self \<noteq> None \<longrightarrow>
      spinner_events 0 (trace_of self prompt t) =
        [SpinnerStart 0 [''Thinking'', ''Analysing''] 0.5, SpinnerSet 0])"
proof (rule spinner_once)
  show "\<not> openai_interrupted self prompt"
    using assms(1) openai_interrupted_foreign [of self prompt "at_start t"]
    by (auto simp: result_of_def)
  show "openai_client self = None \<or> openai_exhausted self prompt \<longrightarrow>
      \<not> gemini_interrupted self prompt \<and> \<not> return_raises self prompt"
    using assms reached_gemini_interrupted_foreign [of self prompt "at_start t"]
    by (auto simp: result_of_def)
qed

theorem spinner_set_exactly_once_witness:
  "\<not> foreign (result_of \<lparr>client = Some (gemini_after 10),
        openai_client = Some failing_openai, last_status = None\<rparr> ''hello'' 0) \<and>
   \<not> return_raises \<lparr>client = Some (gemini_after 10),
        openai_client = Some failing_openai, last_status = None\<rparr> ''hello'' \<and>
   spinner_events 0 (trace_of
      \<lparr>client = Some (gemini_after 10), openai_client = Some failing_openai,
       last_status = None\<rparr> ''hello'' 0) =
     [SpinnerStart 0 [''Thinking'', ''Analysing''] 0.5, SpinnerSet 0] \<and>
   spinner_events 1 (trace_of
      \<lparr>client = Some (gemini_after 10), openai_client = Some failing_openai,
       last_status = None\<rparr> ''hello'' 0) =
     [SpinnerStart 1 [''Thinking'', ''Analysing''] 0.5, SpinnerSet 1]"
proof -
  let ?s = "\<lparr>client = Some (gemini_after 10), openai_client = Some failing_openai,
             last_status = None\<rparr>"
  have a: "\<not> foreign (result_of ?s ''hello'' 0)"
    by (simp add: run_defs example_defs generate_with_fallback_def openai_phase_def
          gemini_fallback_def effect_defs Let_def)
  have b: "\<not> return_raises ?s ''hello''"
    by (simp add: return_raises_def gemini_after_def)
  then have c: "openai_client ?s = None \<or> openai_exhausted ?s ''hello'' \<longrightarrow>
      \<not> return_raises ?s ''hello''" by simp
  have one: "spinner_events 1 (trace_of ?s ''hello'' 0) \<noteq> []"
    by (simp add: run_defs example_defs generate_with_fallback_def openai_phase_def
          gemini_fallback_def effect_defs Let_def spinner_events_def)
  from spinner_set_exactly_once [OF a c, of 0] spinner_set_exactly_once [OF a c, of 1]
    a b one
  show ?thesis by simp
qed

text \<open>
  Claim C7, as stated: the phase label changes on every tick. In the source the index
  of the phase is \<^verbatim>\<open>(i // 3) % len(phases)\<close>: ticks 0 and 1 both show
  \<^verbatim>\<open>Thinking\<close>.
\<close>

theorem phase_kept_on_next_tick:
  "spin_phase [''Thinking'', ''Analysing''] 0 = Some ''Thinking'' \<and>
   spin_phase [''Thinking'', ''Analysing''] 1 = Some ''Thinking''"
  by (simp add: spin_phase_def)

text \<open>
  Claim C7, amended. For non-empty phases, tick \<open>i\<close> writes a carriage return, the
  phase label, a space, \<open>(i mod 3) + 1\<close> dots and ten spaces. The phase label is the
  one at index \<open>(i div 3) mod length phases\<close>: it is the same on the three ticks
  \<open>3k\<close>, \<open>3k + 1\<close>, \<open>3k + 2\<close> of one cycle of the dots and advances (cyclically) once
  per three ticks. A loop stopped after \<open>n\<close> ticks has written these \<open>n\<close> lines and
  then the blanking line.
\<close>

theorem spin_line_every_tick:
  assumes "phases \<noteq> []"
  shows "spin_line phases i =
       Some ([CHR 0x0D] @ phases ! ((i div 3) mod length phases) @ '' '' @
             replicate (Suc (i mod 3)) CHR ''.'' @ replicate 10 CHR '' '') \<and>
     spin_phase phases (3 * k) = Some (phases ! (k mod length phases)) \<and>
     spin_phase phases (3 * k + 1) = Some (phases ! (k mod length phases)) \<and>
     spin_phase phases (3 * k + 2) = Some (phases ! (k mod length phases)) \<and>
     (\<exists>ws. spin phases n 0 = Some ws \<and> length ws = Suc n \<and>
        (\<forall>j<n. Some (ws ! j) = spin_line phases j) \<and> ws ! n = clear_line)"
proof -
  have d: "Suc (3 * k) div 3 = k" "Suc (Suc (3 * k)) div 3 = k" by arith+
  have "spin_phase phases (3 * k) = Some (phases ! (k mod length phases))"
    "spin_phase phases (3 * k + 1) = Some (phases ! (k mod length phases))"
    "spin_phase phases (3 * k + 2) = Some (phases ! (k mod length phases))"
    using assms by (simp_all add: spin_phase_def d)
  moreover have "\<exists>ws. spin phases n 0 = Some ws \<and> length ws = Suc n \<and>
        (\<forall>j<n. Some (ws ! j) = spin_line phases j) \<and> ws ! n = clear_line"
    using spin_writes [OF assms, of n 0] by simp
  ultimately show ?thesis using spin_line_eq [OF assms, of i] by blast
qed

theorem spin_line_every_tick_witness:
  "spin_line [''Thinking'', ''Analysing''] 4 =
     Some ([CHR 0x0D] @ ''Analysing ..'' @ replicate 10 CHR '' '') \<and>
   spin_phase [''Thinking'', ''Analysing''] 3 = Some ''Analysing'' \<and>
   spin_phase [''Thinking'', ''Analysing''] 5 = Some ''Analysing''"
proof -
  have h: "[''Thinking'', ''Analysing''] \<noteq> []" by simp
  from spin_line_every_tick [OF h, of 4 1 0] show ?thesis by (simp add: numeral_2_eq_2)
qed

end
